theory Spec2Isabelle
  imports Complex_Main
begin

section \<open>The entity core of the game server\<close>

text \<open>
  A shallow embedding of \<^verbatim>\<open>src/kcpServer/game/entity/index.ts\<close> (class \<open>Entity\<close>): the
  life-state machine (\<open>kill\<close>, \<open>revive\<close>), the authority assignment
  (\<open>updateAuthorityPeer\<close>), the snapshot export (\<open>exportSceneEntityInfo\<close>), the
  persistence pair (\<open>exportUserData\<close>, \<open>init\<close>) and the Death hook (\<open>handleDeath\<close>).

  A method that mutates \<open>this\<close> takes the entity and returns the updated entity. A JavaScript
  value that may be \<open>null\<close> or \<open>undefined\<close> is an \<open>option\<close>; a property of an exported
  object that may be missing is an \<open>optional\<close>. Identifiers, timestamps and sequence numbers
  are \<open>int\<close>; combat-stat values are \<open>real\<close>, an idealisation of the IEEE doubles of the
  source in which \<open>Math.min\<close>, \<open>Math.max\<close> and the product with 0.4 are exact.
\<close>

subsection \<open>Enumerations\<close>

text \<open>
  Modelled from the spec: the enumerations \<open>ProtEntityTypeEnum\<close> and \<open>LifeStateEnum\<close>
  (\<^verbatim>\<open>@/types/enum/entity\<close> is not among the source files), with the members the
  specification lists: an entity is an Avatar, a Monster, an NPC or a Gadget, and it is Alive
  or Dead.
\<close>

datatype ProtEntityTypeEnum =
  PROT_ENTITY_AVATAR | PROT_ENTITY_MONSTER | PROT_ENTITY_NPC | PROT_ENTITY_GADGET

datatype LifeStateEnum = LIFE_ALIVE | LIFE_DEAD

text \<open>
  The other enumerations are not among the source files either. Each has the members the
  class names, under their names, and one more constructor that stands for the members the
  class never names.
\<close>

datatype PlayerDieTypeEnum = PLAYER_DIE_NONE | PLAYER_DIE_OTHER nat

datatype VisionTypeEnum = VISION_DIE | VISION_OTHER nat

datatype PlayerPropEnum = PROP_LEVEL | PROP_EXP | PROP_BREAK_LEVEL | PROP_OTHER nat

datatype FightPropEnum = FIGHT_PROP_MAX_HP | FIGHT_PROP_CUR_HP | FIGHT_PROP_OTHER nat

subsection \<open>Collaborators\<close>

text \<open>A property of an exported object: missing, or present with its value.\<close>

datatype 'a optional = Absent | Present 'a

type_synonym Vector = "real \<times> real \<times> real"

text \<open>
  \<open>MotionInfo\<close>: the class reads \<open>sceneTime\<close> and \<open>reliableSeq\<close> from it and calls its
  \<open>export()\<close>.
\<close>

record MotionInfo =
  pos :: Vector
  speed :: Vector
  sceneTime :: "int option"
  reliableSeq :: "int option"

text \<open>
  Modelled from the spec: \<open>MotionInfo.export()\<close> (motionInfo.ts is not among the source files),
  the snapshot of the position and velocity tracker.
\<close>

definition MotionInfo_export :: "MotionInfo \<Rightarrow> Vector \<times> Vector" where
  "MotionInfo_export m = (pos m, speed m)"

text \<open>
  Modelled from the spec: \<open>EntityProps\<close> (entityProps.ts is not among the source files), the
  generic keyed scalar property store, as the value it keeps under each key.
\<close>

type_synonym EntityProps = "PlayerPropEnum \<Rightarrow> int"

text \<open>Modelled from the spec: \<open>EntityProps.get(key)\<close>, the value kept under the key.\<close>

definition EntityProps_get :: "EntityProps \<Rightarrow> PlayerPropEnum \<Rightarrow> int" where
  "EntityProps_get p k = p k"

text \<open>Modelled from the spec: \<open>EntityProps.exportPropPair(key)\<close>, the key with its value.\<close>

definition exportPropPair :: "EntityProps \<Rightarrow> PlayerPropEnum \<Rightarrow> PlayerPropEnum \<times> int" where
  "exportPropPair p k = (k, EntityProps_get p k)"

text \<open>Modelled from the spec: \<open>EntityProps.exportUserData()\<close>, the snapshot of the store.\<close>

definition EntityProps_exportUserData :: "EntityProps \<Rightarrow> EntityProps" where
  "EntityProps_exportUserData p = p"

text \<open>
  Modelled from the spec: \<open>EntityProps.init(data)\<close>, which populates the store from the
  persisted snapshot.
\<close>

definition EntityProps_init :: "EntityProps \<Rightarrow> EntityProps \<Rightarrow> EntityProps" where
  "EntityProps_init p propsData = propsData"

text \<open>
  Modelled from the spec: \<open>FightProp\<close> (fightProps.ts is not among the source files), the keyed
  combat-stat store, as the value it keeps under each key. Its recomputation \<open>update()\<close> is a
  parameter of \<open>init\<close> below.
\<close>

type_synonym FightProp = "FightPropEnum \<Rightarrow> real"

text \<open>Modelled from the spec: \<open>FightProp.get(key)\<close>, the value kept under the key.\<close>

definition FightProp_get :: "FightProp \<Rightarrow> FightPropEnum \<Rightarrow> real" where
  "FightProp_get f k = f k"

text \<open>
  Modelled from the spec: \<open>FightProp.set(key, value, notify?)\<close>, which stores the value under
  the key; the third argument only asks for a notification of the clients.
\<close>

definition FightProp_set :: "FightProp \<Rightarrow> FightPropEnum \<Rightarrow> real \<Rightarrow> bool \<Rightarrow> FightProp" where
  "FightProp_set f k v notify = f(k := v)"

text \<open>
  Modelled from the spec: \<open>FightProp.exportPropList()\<close>, the full combat-stat list, kept as
  the content of the store.
\<close>

definition exportPropList :: "FightProp \<Rightarrow> FightProp" where
  "exportPropList f = f"

text \<open>Modelled from the spec: \<open>FightProp.exportUserData()\<close>, the snapshot of the store.\<close>

definition FightProp_exportUserData :: "FightProp \<Rightarrow> FightProp" where
  "FightProp_exportUserData f = f"

text \<open>
  Modelled from the spec: \<open>FightProp.init(data)\<close>, which populates the store from the
  persisted snapshot.
\<close>

definition FightProp_init :: "FightProp \<Rightarrow> FightProp \<Rightarrow> FightProp" where
  "FightProp_init f fightPropsData = fightPropsData"

text \<open>
  Modelled from the spec: \<open>AbilityList\<close> (abilityList.ts is not among the source files), the
  dynamic modifier set, kept as the list of its modifier identifiers. Its recomputation
  \<open>update()\<close> is a parameter of \<open>init\<close> below.
\<close>

type_synonym AbilityList = "int list"

text \<open>
  A player of the scene, as \<open>updateAuthorityPeer\<close> reads it, the world with its peer lookup
  \<open>getPeer\<close> (a field: the lookup itself is not among the source files), the scene and the
  entity manager. \<open>manager.scene\<close> is read unguarded by \<open>handleDeath\<close>, so a manager always
  has its scene.
\<close>

record Player =
  peerId :: int
  noAuthority :: bool
  loadedEntityIdList :: "int list"

record World =
  getPeer :: "int \<Rightarrow> Player option"

record Scene =
  world :: World
  playerList :: "Player list"
  broadcastContextList :: "nat list"

record EntityManager =
  scene :: Scene

subsection \<open>The entity\<close>

record Entity =
  manager :: "EntityManager option"
  entityType :: ProtEntityTypeEnum
  entityId :: int
  groupId :: int
  configId :: int
  blockId :: int
  abilityList :: AbilityList
  props :: EntityProps
  fightProps :: FightProp
  motionInfo :: MotionInfo
  authorityPeerId :: "int option"
  bornPos :: Vector
  lifeState :: LifeStateEnum
  godMode :: bool
  dieType :: "PlayerDieTypeEnum option"
  attackerId :: "int option"
  isOnScene :: bool
  gridHash :: int

definition isAlive :: "Entity \<Rightarrow> bool" where
  "isAlive e = (lifeState e = LIFE_ALIVE)"

definition isDead :: "Entity \<Rightarrow> bool" where
  "isDead e = (lifeState e = LIFE_DEAD)"

subsection \<open>Authority assignment\<close>

definition list_includes :: "'a list \<Rightarrow> 'a \<Rightarrow> bool" where
  "list_includes xs x = (x \<in> set xs)"

text \<open>
  \<^verbatim>\<open>world?.getPeer(authorityPeerId)?.loadedEntityIdList?.includes(entityId)\<close>: falsy when there
  is no world, when the lookup finds no peer (as for the identifier \<open>null\<close>), and when the
  peer has not loaded the entity.
\<close>

definition authorityPeerLoaded :: "World option \<Rightarrow> int option \<Rightarrow> int \<Rightarrow> bool" where
  "authorityPeerLoaded w apid eid =
     (case w of
        None \<Rightarrow> False
      | Some w' \<Rightarrow>
          (case apid of
             None \<Rightarrow> False
           | Some pid \<Rightarrow>
               (case getPeer w' pid of
                  None \<Rightarrow> False
                | Some peer \<Rightarrow> list_includes (loadedEntityIdList peer) eid)))"

text \<open>
  The predicate of \<^verbatim>\<open>playerList?.find(player => !player.noAuthority &&
  player.loadedEntityIdList.includes(entityId))?.peerId\<close>, and the search itself:
  \<open>undefined\<close> when there is no player list or no player passes.
\<close>

definition eligible :: "int \<Rightarrow> Player \<Rightarrow> bool" where
  "eligible eid player = (\<not> noAuthority player \<and> list_includes (loadedEntityIdList player) eid)"

definition findAuthorityPeerId :: "Player list option \<Rightarrow> int \<Rightarrow> int option" where
  "findAuthorityPeerId pl eid =
     (case pl of
        None \<Rightarrow> None
      | Some players \<Rightarrow>
          (case find (eligible eid) players of
             None \<Rightarrow> None
           | Some player \<Rightarrow> Some (peerId player)))"

text \<open>
  \<^verbatim>\<open>const { world, playerList } = manager?.scene || {}\<close>: both are \<open>undefined\<close> for an
  entity without a manager.
\<close>

definition sceneWorld :: "Entity \<Rightarrow> World option" where
  "sceneWorld e = (case manager e of None \<Rightarrow> None | Some m \<Rightarrow> Some (world (scene m)))"

definition scenePlayerList :: "Entity \<Rightarrow> Player list option" where
  "scenePlayerList e = (case manager e of None \<Rightarrow> None | Some m \<Rightarrow> Some (playerList (scene m)))"

text \<open>
  The result is the returned boolean and the entity after the call. The local
  \<open>authorityPeerId\<close> is read from the entity before anything is assigned, and the last line
  of the source returns \<^verbatim>\<open>authorityPeerId != null\<close> on that local.
\<close>

definition updateAuthorityPeer :: "Entity \<Rightarrow> bool \<times> Entity" where
  "updateAuthorityPeer e =
     (if entityType e \<noteq> PROT_ENTITY_MONSTER
         \<or> authorityPeerLoaded (sceneWorld e) (authorityPeerId e) (entityId e)
      then (False, e)
      else (case findAuthorityPeerId (scenePlayerList e) (entityId e) of
              None \<Rightarrow> (False, e)
            | Some pid \<Rightarrow> (authorityPeerId e \<noteq> None, e\<lparr>authorityPeerId := Some pid\<rparr>)))"

text \<open>No player of the scene passes the search: there is no scene, or \<open>find\<close> has no match.\<close>

definition noEligiblePlayer :: "Entity \<Rightarrow> bool" where
  "noEligiblePlayer e =
     (case scenePlayerList e of
        None \<Rightarrow> True
      | Some players \<Rightarrow> filter (eligible (entityId e)) players = [])"

subsection \<open>Life-state machine\<close>

text \<open>
  \<^verbatim>\<open>await this.emit(name)\<close> is recorded as the event's name together with the entity as it
  is when the event is raised; \<open>kill\<close> and \<open>revive\<close> return the entity and the events they
  raised, in order.
\<close>

datatype Emitted = Emit string Entity

definition kill :: "Entity \<Rightarrow> int \<Rightarrow> PlayerDieTypeEnum \<Rightarrow> Entity \<times> Emitted list" where
  "kill e attackerId' dieType' =
     (if \<not> isAlive e then (e, [])
      else (let e' = e\<lparr>lifeState := LIFE_DEAD, dieType := Some dieType',
                        attackerId := Some attackerId'\<rparr>
            in (e', [Emit ''Death'' e'])))"

definition revive :: "Entity \<Rightarrow> real option \<Rightarrow> Entity \<times> Emitted list" where
  "revive e val =
     (if isAlive e then (e, [])
      else (let e1 = e\<lparr>lifeState := LIFE_ALIVE, dieType := Some PLAYER_DIE_NONE,
                        attackerId := None\<rparr>;
                maxHp = FightProp_get (fightProps e1) FIGHT_PROP_MAX_HP;
                e2 = e1\<lparr>fightProps :=
                       FightProp_set (fightProps e1) FIGHT_PROP_CUR_HP
                         (case val of Some v \<Rightarrow> min maxHp (max 1 v) | None \<Rightarrow> maxHp * 0.4)
                         True\<rparr>
            in (e2, [Emit ''Revive'' e2])))"

subsection \<open>Snapshot export\<close>

record SceneEntityAiInfo =
  isAiOpen :: bool
  ai_bornPos :: Vector

record EntityAuthorityInfo =
  abilityInfo :: "unit optional"
  rendererChangedInfo :: unit
  aiInfo :: SceneEntityAiInfo
  eai_bornPos :: Vector
  unknown1 :: unit

text \<open>
  Modelled from the spec: \<open>Vector.export()\<close> (vector.ts is not among the source files), the
  coordinates of the vector.
\<close>

definition Vector_export :: "Vector \<Rightarrow> Vector" where
  "Vector_export v = v"

definition exportEntityAuthorityInfo :: "Entity \<Rightarrow> EntityAuthorityInfo" where
  "exportEntityAuthorityInfo e =
     \<lparr>abilityInfo = Present (),
      rendererChangedInfo = (),
      aiInfo = \<lparr>isAiOpen = True, ai_bornPos = Vector_export (bornPos e)\<rparr>,
      eai_bornPos = Vector_export (bornPos e),
      unknown1 = ()\<rparr>"

text \<open>
  The four sub-payload builders are placeholders that return \<open>null\<close> in this class and are
  overridden by its subclasses: \<open>exportSceneEntityInfo\<close> takes them as a parameter, and
  \<open>placeholder\<close> is what the class itself has. The payload types are declared in files that
  are not among the source files.
\<close>

typedecl SceneAvatarInfo
typedecl SceneMonsterInfo
typedecl SceneNpcInfo
typedecl SceneGadgetInfo

record Builders =
  exportSceneAvatarInfo :: "Entity \<Rightarrow> SceneAvatarInfo option"
  exportSceneMonsterInfo :: "Entity \<Rightarrow> SceneMonsterInfo option"
  exportSceneNpcInfo :: "Entity \<Rightarrow> SceneNpcInfo option"
  exportSceneGadgetInfo :: "Entity \<Rightarrow> SceneGadgetInfo option"

definition placeholder :: Builders where
  "placeholder =
     \<lparr>exportSceneAvatarInfo = (\<lambda>e. None), exportSceneMonsterInfo = (\<lambda>e. None),
      exportSceneNpcInfo = (\<lambda>e. None), exportSceneGadgetInfo = (\<lambda>e. None)\<rparr>"

record SceneEntityInfo =
  sei_entityType :: ProtEntityTypeEnum
  sei_entityId :: int
  sei_motionInfo :: "Vector \<times> Vector"
  propList :: "(PlayerPropEnum \<times> int) list"
  fightPropList :: FightProp
  sei_lifeState :: "LifeStateEnum optional"
  animatorParaList :: "unit list"
  entityClientData :: unit
  entityAuthorityInfo :: EntityAuthorityInfo
  lastMoveSceneTimeMs :: "int optional"
  lastMoveReliableSeq :: "int optional"
  avatar :: "SceneAvatarInfo option optional"
  monster :: "SceneMonsterInfo option optional"
  npc :: "SceneNpcInfo option optional"
  gadget :: "SceneGadgetInfo option optional"

definition exportSceneEntityInfo :: "Builders \<Rightarrow> Entity \<Rightarrow> SceneEntityInfo" where
  "exportSceneEntityInfo b e =
     (let info0 =
            \<lparr>sei_entityType = entityType e,
             sei_entityId = entityId e,
             sei_motionInfo = MotionInfo_export (motionInfo e),
             propList = [exportPropPair (props e) PROP_LEVEL],
             fightPropList = exportPropList (fightProps e),
             sei_lifeState = Present (lifeState e),
             animatorParaList = [()],
             entityClientData = (),
             entityAuthorityInfo = exportEntityAuthorityInfo e,
             lastMoveSceneTimeMs = Absent,
             lastMoveReliableSeq = Absent,
             avatar = Absent, monster = Absent, npc = Absent, gadget = Absent\<rparr>;
          info1 = (case sceneTime (motionInfo e) of
                     Some t \<Rightarrow> info0\<lparr>lastMoveSceneTimeMs := Present t\<rparr>
                   | None \<Rightarrow> info0);
          info2 = (case reliableSeq (motionInfo e) of
                     Some q \<Rightarrow> info1\<lparr>lastMoveReliableSeq := Present q\<rparr>
                   | None \<Rightarrow> info1)
      in case entityType e of
           PROT_ENTITY_AVATAR \<Rightarrow> info2\<lparr>avatar := Present (exportSceneAvatarInfo b e)\<rparr>
         | PROT_ENTITY_MONSTER \<Rightarrow> info2\<lparr>monster := Present (exportSceneMonsterInfo b e)\<rparr>
         | PROT_ENTITY_NPC \<Rightarrow>
             info2\<lparr>npc := Present (exportSceneNpcInfo b e),
                   propList := [],
                   sei_lifeState := Absent,
                   entityAuthorityInfo := (entityAuthorityInfo info2)\<lparr>abilityInfo := Absent\<rparr>\<rparr>
         | PROT_ENTITY_GADGET \<Rightarrow> info2\<lparr>gadget := Present (exportSceneGadgetInfo b e)\<rparr>)"

subsection \<open>Persistence\<close>

record EntityUserData =
  ud_lifeState :: "LifeStateEnum option"
  propsData :: EntityProps
  fightPropsData :: FightProp

definition exportUserData :: "Entity \<Rightarrow> EntityUserData" where
  "exportUserData e =
     \<lparr>ud_lifeState = Some (lifeState e),
      propsData = EntityProps_exportUserData (props e),
      fightPropsData = FightProp_exportUserData (fightProps e)\<rparr>"

text \<open>
  The two awaited refreshes that end \<open>init\<close>, \<^verbatim>\<open>abilityList.update()\<close> and
  \<^verbatim>\<open>fightProps.update()\<close>, are parameters: each reads the entity and either rejects
  (\<open>Inl\<close>, which \<open>init\<close> passes on) or gives the recomputed store.
\<close>

definition init ::
  "(Entity \<Rightarrow> 'x + AbilityList) \<Rightarrow> (Entity \<Rightarrow> 'x + FightProp) \<Rightarrow> Entity \<Rightarrow> EntityUserData
     \<Rightarrow> 'x + Entity" where
  "init refreshAbilityList refreshFightProps e userData =
     (let e1 = e\<lparr>lifeState := (case ud_lifeState userData of
                                   Some l \<Rightarrow> l
                                 | None \<Rightarrow> LIFE_ALIVE)\<rparr>;
          e2 = e1\<lparr>props := EntityProps_init (props e1) (propsData userData)\<rparr>;
          e3 = e2\<lparr>fightProps := FightProp_init (fightProps e2) (fightPropsData userData)\<rparr>
      in case refreshAbilityList e3 of
           Inl err \<Rightarrow> Inl err
         | Inr al \<Rightarrow>
             (let e4 = e3\<lparr>abilityList := al\<rparr>
              in case refreshFightProps e4 of
                   Inl err \<Rightarrow> Inl err
                 | Inr fp \<Rightarrow> Inr (e4\<lparr>fightProps := fp\<rparr>)))"

subsection \<open>The Death hook\<close>

text \<open>
  The two awaited calls of \<open>handleDeath\<close> go to collaborators. The hook is given the function
  that says whether an awaited call resolves, and returns the calls it made, in order, with
  whether it resolved itself: a call that rejects ends the hook there.
\<close>

datatype Call = BroadcastNotify "nat list" Entity | ManagerRemove Entity VisionTypeEnum

definition handleDeath :: "(Call \<Rightarrow> bool) \<Rightarrow> Entity \<Rightarrow> Call list \<times> bool" where
  "handleDeath resolves e =
     (case manager e of
        None \<Rightarrow> ([], True)
      | Some m \<Rightarrow>
          (let notify = BroadcastNotify (broadcastContextList (scene m)) e
           in if resolves notify
              then (let remove = ManagerRemove e VISION_DIE
                    in ([notify, remove], resolves remove))
              else ([notify], False)))"

subsection \<open>Concrete scenes and entities\<close>

text \<open>
  A scene with one connected player, who has loaded entity 7 and may hold authority; a scene
  without players; and a level 1 monster of the first scene, with identifier 7, 11 points of
  maximal HP and no authority peer yet.
\<close>

definition player1 :: Player where
  "player1 = \<lparr>peerId = 1, noAuthority = False, loadedEntityIdList = [7]\<rparr>"

definition scene1 :: Scene where
  "scene1 =
     \<lparr>world = \<lparr>getPeer = (\<lambda>i. if i = 1 then Some player1 else None)\<rparr>,
      playerList = [player1],
      broadcastContextList = [1]\<rparr>"

definition emptyScene :: Scene where
  "emptyScene =
     \<lparr>world = \<lparr>getPeer = (\<lambda>i. None)\<rparr>, playerList = [], broadcastContextList = []\<rparr>"

definition monster7 :: Entity where
  "monster7 =
     \<lparr>manager = Some \<lparr>scene = scene1\<rparr>,
      entityType = PROT_ENTITY_MONSTER,
      entityId = 7,
      groupId = 0,
      configId = 0,
      blockId = 0,
      abilityList = [],
      props = (\<lambda>k. if k = PROP_LEVEL then 1 else 0),
      fightProps = (\<lambda>k. if k = FIGHT_PROP_MAX_HP \<or> k = FIGHT_PROP_CUR_HP then 11 else 0),
      motionInfo = \<lparr>pos = (0, 0, 0), speed = (0, 0, 0), sceneTime = None, reliableSeq = None\<rparr>,
      authorityPeerId = None,
      bornPos = (0, 0, 0),
      lifeState = LIFE_ALIVE,
      godMode = False,
      dieType = None,
      attackerId = None,
      isOnScene = True,
      gridHash = 0\<rparr>"

text \<open>The same monster once player 5, who held authority over it, has left with everybody else.\<close>

definition staleMonster :: Entity where
  "staleMonster = monster7\<lparr>manager := Some \<lparr>scene = emptyScene\<rparr>, authorityPeerId := Some 5\<rparr>"

text \<open>The same monster killed by entity 42.\<close>

definition deadMonster :: Entity where
  "deadMonster =
     monster7\<lparr>lifeState := LIFE_DEAD, dieType := Some (PLAYER_DIE_OTHER 1), attackerId := Some 42\<rparr>"

section \<open>Properties\<close>

lemmas authority_defs =
  updateAuthorityPeer_def sceneWorld_def scenePlayerList_def authorityPeerLoaded_def
  findAuthorityPeerId_def eligible_def list_includes_def

lemmas example_defs =
  monster7_def staleMonster_def deadMonster_def scene1_def emptyScene_def player1_def

subsection \<open>Authority assignment\<close>


lemma find_filter_empty: "filter P xs = [] \<Longrightarrow> find P xs = None"
  by (induction xs) (auto split: if_splits)

text \<open>
  Claim C9. On an entity whose \<open>entityType\<close> is not Monster, \<open>updateAuthorityPeer\<close> returns
  false and leaves the entity, and so its \<open>authorityPeerId\<close>, as it was, whatever manager,
  scene and player list the entity has.
\<close>

theorem updateAuthorityPeer_not_monster:
  "entityType e \<noteq> PROT_ENTITY_MONSTER \<Longrightarrow> updateAuthorityPeer e = (False, e)"
  by (simp add: updateAuthorityPeer_def)

theorem updateAuthorityPeer_not_monster_witness:
  "entityType (monster7\<lparr>entityType := PROT_ENTITY_NPC\<rparr>) \<noteq> PROT_ENTITY_MONSTER
   \<and> updateAuthorityPeer (monster7\<lparr>entityType := PROT_ENTITY_NPC\<rparr>)
       = (False, monster7\<lparr>entityType := PROT_ENTITY_NPC\<rparr>)"
proof -
  have h: "entityType (monster7\<lparr>entityType := PROT_ENTITY_NPC\<rparr>) \<noteq> PROT_ENTITY_MONSTER"
    by simp
  from updateAuthorityPeer_not_monster [OF h] h show ?thesis by simp
qed




text \<open>
  Claim C2, as stated, fails. \<open>staleMonster\<close> is a Monster whose authority peer 5 is gone
  and whose scene has no eligible player: the call returns false and \<open>authorityPeerId\<close>
  is still 5 after it, not null.
\<close>

theorem updateAuthorityPeer_unassigned_counterexample:
  "entityType staleMonster = PROT_ENTITY_MONSTER
   \<and> \<not> authorityPeerLoaded (sceneWorld staleMonster) (authorityPeerId staleMonster)
         (entityId staleMonster)
   \<and> noEligiblePlayer staleMonster
   \<and> \<not> fst (updateAuthorityPeer staleMonster)
   \<and> authorityPeerId (snd (updateAuthorityPeer staleMonster)) = Some 5
   \<and> authorityPeerId (snd (updateAuthorityPeer staleMonster)) \<noteq> None"
  by (simp add: authority_defs example_defs noEligiblePlayer_def)

text \<open>
  Claim C2, amended. On a Monster whose current authority peer is no longer valid (the world
  has no such peer, or the peer has not loaded the entity) and for which no player of the
  scene is eligible, \<open>updateAuthorityPeer\<close> returns false and leaves \<open>authorityPeerId\<close> as it
  was.
\<close>

theorem updateAuthorityPeer_no_candidate:
  assumes "entityType e = PROT_ENTITY_MONSTER"
    and "\<not> authorityPeerLoaded (sceneWorld e) (authorityPeerId e) (entityId e)"
    and "noEligiblePlayer e"
  shows "updateAuthorityPeer e = (False, e)"
proof -
  have "findAuthorityPeerId (scenePlayerList e) (entityId e) = None"
  proof (cases "scenePlayerList e")
    case None
    then show ?thesis by (simp add: findAuthorityPeerId_def)
  next
    case (Some players)
    with assms(3) have "filter (eligible (entityId e)) players = []"
      by (simp add: noEligiblePlayer_def)
    then have "find (eligible (entityId e)) players = None"
      by (rule find_filter_empty)
    with Some show ?thesis by (simp add: findAuthorityPeerId_def)
  qed
  then show ?thesis by (simp add: updateAuthorityPeer_def)
qed

theorem updateAuthorityPeer_no_candidate_witness:
  "entityType staleMonster = PROT_ENTITY_MONSTER
   \<and> \<not> authorityPeerLoaded (sceneWorld staleMonster) (authorityPeerId staleMonster)
         (entityId staleMonster)
   \<and> noEligiblePlayer staleMonster
   \<and> updateAuthorityPeer staleMonster = (False, staleMonster)"
proof -
  have h1: "entityType staleMonster = PROT_ENTITY_MONSTER"
    by (simp add: example_defs)
  have h2: "\<not> authorityPeerLoaded (sceneWorld staleMonster) (authorityPeerId staleMonster)
              (entityId staleMonster)"
    by (simp add: authority_defs example_defs)
  have h3: "noEligiblePlayer staleMonster"
    by (simp add: authority_defs example_defs noEligiblePlayer_def)
  from updateAuthorityPeer_no_candidate [OF h1 h2 h3] h1 h2 h3 show ?thesis by simp
qed

subsection \<open>Life-state machine\<close>

lemmas life_defs = kill_def revive_def isAlive_def FightProp_get_def FightProp_set_def

text \<open>
  Claim C3, as stated, fails. \<open>deadMonster\<close> is Dead and has 11 points of maximal HP:
  \<open>revive()\<close> without argument sets its current HP to 4.4, the product itself, and not to
  \<open>round(0.4 \<times> 11) = 4\<close>.
\<close>

theorem revive_round_counterexample:
  "lifeState deadMonster = LIFE_DEAD
   \<and> FightProp_get (fightProps deadMonster) FIGHT_PROP_MAX_HP = 11
   \<and> FightProp_get (fightProps (fst (revive deadMonster None))) FIGHT_PROP_CUR_HP = 22 / 5
   \<and> real_of_int (round (0.4 * FightProp_get (fightProps deadMonster) FIGHT_PROP_MAX_HP)) = 4
   \<and> FightProp_get (fightProps (fst (revive deadMonster None))) FIGHT_PROP_CUR_HP
       \<noteq> real_of_int (round (0.4 * FightProp_get (fightProps deadMonster) FIGHT_PROP_MAX_HP))"
  by (simp add: life_defs example_defs Let_def round_def)

text \<open>
  Claim C3, amended. On a Dead entity, \<open>revive(v)\<close> sets the current HP to
  \<open>min(maxHp, max(1, v))\<close> and \<open>revive()\<close> without argument sets it to \<open>0.4 \<times> maxHp\<close>, not
  rounded; in both cases \<open>lifeState\<close> becomes Alive, \<open>dieType\<close> is \<open>PLAYER_DIE_NONE\<close> and
  \<open>attackerId\<close> is null, and the one event raised is Revive, on the entity in that state.
\<close>

theorem revive_dead:
  assumes "lifeState e = LIFE_DEAD"
  shows "lifeState (fst (revive e val)) = LIFE_ALIVE
   \<and> dieType (fst (revive e val)) = Some PLAYER_DIE_NONE
   \<and> attackerId (fst (revive e val)) = None
   \<and> fightProps (fst (revive e val))
       = FightProp_set (fightProps e) FIGHT_PROP_CUR_HP
           (case val of
              Some v \<Rightarrow> min (FightProp_get (fightProps e) FIGHT_PROP_MAX_HP) (max 1 v)
            | None \<Rightarrow> FightProp_get (fightProps e) FIGHT_PROP_MAX_HP * 0.4)
           True
   \<and> FightProp_get (fightProps (fst (revive e val))) FIGHT_PROP_CUR_HP
       = (case val of
            Some v \<Rightarrow> min (FightProp_get (fightProps e) FIGHT_PROP_MAX_HP) (max 1 v)
          | None \<Rightarrow> FightProp_get (fightProps e) FIGHT_PROP_MAX_HP * 0.4)
   \<and> snd (revive e val) = [Emit ''Revive'' (fst (revive e val))]"
  using assms by (simp add: life_defs Let_def split: option.splits)

theorem revive_dead_witness:
  "lifeState deadMonster = LIFE_DEAD
   \<and> lifeState (fst (revive deadMonster (Some 100))) = LIFE_ALIVE
   \<and> dieType (fst (revive deadMonster (Some 100))) = Some PLAYER_DIE_NONE
   \<and> attackerId (fst (revive deadMonster (Some 100))) = None
   \<and> FightProp_get (fightProps (fst (revive deadMonster (Some 100)))) FIGHT_PROP_CUR_HP = 11
   \<and> FightProp_get (fightProps (fst (revive deadMonster None))) FIGHT_PROP_CUR_HP = 22 / 5
   \<and> snd (revive deadMonster None) = [Emit ''Revive'' (fst (revive deadMonster None))]"
proof -
  have h: "lifeState deadMonster = LIFE_DEAD"
    by (simp add: example_defs)
  have m: "FightProp_get (fightProps deadMonster) FIGHT_PROP_MAX_HP = 11"
    by (simp add: example_defs FightProp_get_def)
  from revive_dead [OF h, of "Some 100"] revive_dead [OF h, of None] h m
  show ?thesis by (simp add: FightProp_get_def FightProp_set_def)
qed

text \<open>
  Claim C7. \<open>kill\<close> on a Dead entity and \<open>revive\<close> on an Alive entity return the entity as
  it was, every field included, and raise no event; and whatever the entity, a second \<open>kill\<close>
  after a first returns the entity the first one left, so \<open>dieType\<close> and \<open>attackerId\<close> are
  those of the first call, and raises no event.
\<close>

theorem kill_revive_absorbed:
  "(lifeState e = LIFE_DEAD \<longrightarrow> kill e a d = (e, []))
   \<and> (lifeState e = LIFE_ALIVE \<longrightarrow> revive e val = (e, []))
   \<and> kill (fst (kill e a d)) a' d' = (fst (kill e a d), [])"
  by (simp add: kill_def revive_def isAlive_def Let_def)

theorem kill_revive_absorbed_witness:
  "lifeState deadMonster = LIFE_DEAD \<and> kill deadMonster 8 PLAYER_DIE_NONE = (deadMonster, [])
   \<and> lifeState monster7 = LIFE_ALIVE \<and> revive monster7 (Some 3) = (monster7, [])
   \<and> dieType (fst (kill (fst (kill monster7 42 (PLAYER_DIE_OTHER 1))) 8 PLAYER_DIE_NONE))
       = Some (PLAYER_DIE_OTHER 1)
   \<and> attackerId (fst (kill (fst (kill monster7 42 (PLAYER_DIE_OTHER 1))) 8 PLAYER_DIE_NONE))
       = Some 42
   \<and> snd (kill (fst (kill monster7 42 (PLAYER_DIE_OTHER 1))) 8 PLAYER_DIE_NONE) = []"
proof -
  have h1: "lifeState deadMonster = LIFE_DEAD"
    by (simp add: example_defs)
  have h2: "lifeState monster7 = LIFE_ALIVE"
    by (simp add: example_defs)
  have k: "fst (kill monster7 42 (PLAYER_DIE_OTHER 1)) = deadMonster"
    by (simp add: kill_def isAlive_def Let_def example_defs)
  from kill_revive_absorbed [of deadMonster 8 PLAYER_DIE_NONE "Some 3" 8 PLAYER_DIE_NONE] h1
  have a: "kill deadMonster 8 PLAYER_DIE_NONE = (deadMonster, [])"
    by blast
  from kill_revive_absorbed [of monster7 8 PLAYER_DIE_NONE "Some 3" 8 PLAYER_DIE_NONE] h2
  have b: "revive monster7 (Some 3) = (monster7, [])"
    by blast
  from kill_revive_absorbed [of monster7 42 "PLAYER_DIE_OTHER 1" None 8 PLAYER_DIE_NONE]
  have c: "kill (fst (kill monster7 42 (PLAYER_DIE_OTHER 1))) 8 PLAYER_DIE_NONE
            = (fst (kill monster7 42 (PLAYER_DIE_OTHER 1)), [])"
    by blast
  have d: "dieType deadMonster = Some (PLAYER_DIE_OTHER 1) \<and> attackerId deadMonster = Some 42"
    by (simp add: example_defs)
  from a b c d h1 h2 k show ?thesis by simp
qed

text \<open>
  Claim C10. \<open>kill\<close> on an Alive entity makes it Dead whatever the \<open>godMode\<close> flag is: the
  result is the entity with \<open>lifeState\<close>, \<open>dieType\<close> and \<open>attackerId\<close> set and the Death event
  raised, and \<open>godMode\<close> is carried along unread.
\<close>

theorem kill_ignores_godMode:
  assumes "lifeState e = LIFE_ALIVE"
  shows "lifeState (fst (kill (e\<lparr>godMode := g\<rparr>) a d)) = LIFE_DEAD
   \<and> kill (e\<lparr>godMode := g\<rparr>) a d
       = (e\<lparr>godMode := g, lifeState := LIFE_DEAD, dieType := Some d, attackerId := Some a\<rparr>,
          [Emit ''Death''
             (e\<lparr>godMode := g, lifeState := LIFE_DEAD, dieType := Some d, attackerId := Some a\<rparr>)])"
  using assms by (simp add: kill_def isAlive_def Let_def)

theorem kill_ignores_godMode_witness:
  "lifeState monster7 = LIFE_ALIVE
   \<and> godMode (monster7\<lparr>godMode := True\<rparr>)
   \<and> lifeState (fst (kill (monster7\<lparr>godMode := True\<rparr>) 42 (PLAYER_DIE_OTHER 1))) = LIFE_DEAD"
proof -
  have h: "lifeState monster7 = LIFE_ALIVE"
    by (simp add: example_defs)
  from kill_ignores_godMode [OF h, of True 42 "PLAYER_DIE_OTHER 1"] h show ?thesis by simp
qed

subsection \<open>Snapshot export\<close>

lemmas export_defs = exportSceneEntityInfo_def exportEntityAuthorityInfo_def

text \<open>
  Claim C5. The snapshot of an NPC has no \<open>lifeState\<close> field, no \<open>abilityInfo\<close> field in its
  authority block and an empty \<open>propList\<close>, and of the four sub-payload fields it has the
  \<open>npc\<close> one only, set to what the NPC builder returns. The snapshot of an Avatar, a Monster or
  a Gadget has the sub-payload field of its own type only, set to what that builder returns.
\<close>

theorem exportSceneEntityInfo_variant:
  "(entityType e = PROT_ENTITY_NPC \<longrightarrow>
      sei_lifeState (exportSceneEntityInfo b e) = Absent
      \<and> abilityInfo (entityAuthorityInfo (exportSceneEntityInfo b e)) = Absent
      \<and> propList (exportSceneEntityInfo b e) = []
      \<and> npc (exportSceneEntityInfo b e) = Present (exportSceneNpcInfo b e)
      \<and> avatar (exportSceneEntityInfo b e) = Absent
      \<and> monster (exportSceneEntityInfo b e) = Absent
      \<and> gadget (exportSceneEntityInfo b e) = Absent)
   \<and> (entityType e = PROT_ENTITY_AVATAR \<longrightarrow>
      avatar (exportSceneEntityInfo b e) = Present (exportSceneAvatarInfo b e)
      \<and> monster (exportSceneEntityInfo b e) = Absent
      \<and> npc (exportSceneEntityInfo b e) = Absent
      \<and> gadget (exportSceneEntityInfo b e) = Absent)
   \<and> (entityType e = PROT_ENTITY_MONSTER \<longrightarrow>
      monster (exportSceneEntityInfo b e) = Present (exportSceneMonsterInfo b e)
      \<and> avatar (exportSceneEntityInfo b e) = Absent
      \<and> npc (exportSceneEntityInfo b e) = Absent
      \<and> gadget (exportSceneEntityInfo b e) = Absent)
   \<and> (entityType e = PROT_ENTITY_GADGET \<longrightarrow>
      gadget (exportSceneEntityInfo b e) = Present (exportSceneGadgetInfo b e)
      \<and> avatar (exportSceneEntityInfo b e) = Absent
      \<and> monster (exportSceneEntityInfo b e) = Absent
      \<and> npc (exportSceneEntityInfo b e) = Absent)"
  by (simp add: export_defs Let_def split: option.splits)

theorem exportSceneEntityInfo_variant_witness:
  "sei_lifeState (exportSceneEntityInfo placeholder (monster7\<lparr>entityType := PROT_ENTITY_NPC\<rparr>))
     = Absent
   \<and> abilityInfo (entityAuthorityInfo
        (exportSceneEntityInfo placeholder (monster7\<lparr>entityType := PROT_ENTITY_NPC\<rparr>))) = Absent
   \<and> propList (exportSceneEntityInfo placeholder (monster7\<lparr>entityType := PROT_ENTITY_NPC\<rparr>)) = []
   \<and> npc (exportSceneEntityInfo placeholder (monster7\<lparr>entityType := PROT_ENTITY_NPC\<rparr>))
       = Present None
   \<and> avatar (exportSceneEntityInfo placeholder (monster7\<lparr>entityType := PROT_ENTITY_AVATAR\<rparr>))
       = Present None
   \<and> monster (exportSceneEntityInfo placeholder monster7) = Present None
   \<and> npc (exportSceneEntityInfo placeholder monster7) = Absent
   \<and> sei_lifeState (exportSceneEntityInfo placeholder monster7) = Present LIFE_ALIVE
   \<and> gadget (exportSceneEntityInfo placeholder (monster7\<lparr>entityType := PROT_ENTITY_GADGET\<rparr>))
       = Present None"
proof -
  have t: "entityType (monster7\<lparr>entityType := PROT_ENTITY_NPC\<rparr>) = PROT_ENTITY_NPC"
    "entityType (monster7\<lparr>entityType := PROT_ENTITY_AVATAR\<rparr>) = PROT_ENTITY_AVATAR"
    "entityType monster7 = PROT_ENTITY_MONSTER"
    "entityType (monster7\<lparr>entityType := PROT_ENTITY_GADGET\<rparr>) = PROT_ENTITY_GADGET"
    by (simp_all add: example_defs)
  have l: "sei_lifeState (exportSceneEntityInfo placeholder monster7) = Present LIFE_ALIVE"
    by (simp add: export_defs example_defs Let_def)
  from exportSceneEntityInfo_variant [of "monster7\<lparr>entityType := PROT_ENTITY_NPC\<rparr>" placeholder]
    exportSceneEntityInfo_variant [of "monster7\<lparr>entityType := PROT_ENTITY_AVATAR\<rparr>" placeholder]
    exportSceneEntityInfo_variant [of monster7 placeholder]
    exportSceneEntityInfo_variant [of "monster7\<lparr>entityType := PROT_ENTITY_GADGET\<rparr>" placeholder]
    t l
  show ?thesis by (simp add: placeholder_def)
qed

text \<open>
  Claim C8. The snapshot has the \<open>lastMoveSceneTimeMs\<close> field if and only if \<open>sceneTime\<close> of
  the motion tracker is non-null, and the \<open>lastMoveReliableSeq\<close> field if and only if
  \<open>reliableSeq\<close> of the motion tracker is non-null; a field that is there holds the tracker's
  value.
\<close>

theorem exportSceneEntityInfo_lastMove:
  "(lastMoveSceneTimeMs (exportSceneEntityInfo b e) \<noteq> Absent)
     = (sceneTime (motionInfo e) \<noteq> None)
   \<and> (lastMoveReliableSeq (exportSceneEntityInfo b e) \<noteq> Absent)
     = (reliableSeq (motionInfo e) \<noteq> None)
   \<and> lastMoveSceneTimeMs (exportSceneEntityInfo b e)
       = (case sceneTime (motionInfo e) of None \<Rightarrow> Absent | Some t \<Rightarrow> Present t)
   \<and> lastMoveReliableSeq (exportSceneEntityInfo b e)
       = (case reliableSeq (motionInfo e) of None \<Rightarrow> Absent | Some q \<Rightarrow> Present q)"
  by (cases "entityType e") (simp_all add: export_defs Let_def split: option.splits)

theorem exportSceneEntityInfo_lastMove_witness:
  "lastMoveSceneTimeMs (exportSceneEntityInfo placeholder monster7) = Absent
   \<and> lastMoveReliableSeq (exportSceneEntityInfo placeholder monster7) = Absent
   \<and> lastMoveSceneTimeMs (exportSceneEntityInfo placeholder
        (monster7\<lparr>motionInfo := (motionInfo monster7)\<lparr>sceneTime := Some 1000\<rparr>\<rparr>)) = Present 1000
   \<and> lastMoveReliableSeq (exportSceneEntityInfo placeholder
        (monster7\<lparr>motionInfo := (motionInfo monster7)\<lparr>sceneTime := Some 1000\<rparr>\<rparr>)) = Absent"
proof -
  have m: "sceneTime (motionInfo monster7) = None" "reliableSeq (motionInfo monster7) = None"
    by (simp_all add: example_defs)
  from exportSceneEntityInfo_lastMove [of placeholder monster7]
    exportSceneEntityInfo_lastMove [of placeholder
      "monster7\<lparr>motionInfo := (motionInfo monster7)\<lparr>sceneTime := Some 1000\<rparr>\<rparr>"] m
  show ?thesis by simp
qed

subsection \<open>Persistence\<close>

text \<open>
  What the source of \<open>init\<close> and \<open>exportUserData\<close> settles of the persistence round trip
  (claim C4): on the snapshot \<open>exportUserData()\<close> of an entity \<open>e\<close>, \<open>init\<close> restores the
  \<open>lifeState\<close> of \<open>e\<close> and hands the exported props and combat-stat snapshots to the stores
  of the entity \<open>t\<close> it is called on, and then awaits the ability refresh and the combat-stat
  refresh. The combat stats the entity ends with are those the last refresh computes, and a
  rejected refresh is passed on: whether they are the exported ones is a property of
  \<open>fightProps.update()\<close>, which is not among the source files, so the round trip itself is
  left open here.
\<close>

lemma init_exportUserData_restores:
  "init refreshAbilityList refreshFightProps t (exportUserData e)
     = (let r = t\<lparr>lifeState := lifeState e, props := props e, fightProps := fightProps e\<rparr>
        in case refreshAbilityList r of
             Inl err \<Rightarrow> Inl err
           | Inr al \<Rightarrow>
               (case refreshFightProps (r\<lparr>abilityList := al\<rparr>) of
                  Inl err \<Rightarrow> Inl err
                | Inr fp \<Rightarrow> Inr (r\<lparr>abilityList := al, fightProps := fp\<rparr>)))"
  by (simp add: init_def exportUserData_def EntityProps_init_def EntityProps_exportUserData_def
      FightProp_init_def FightProp_exportUserData_def Let_def split: sum.splits)

subsection \<open>The Death hook\<close>

text \<open>
  Claim C6. On an entity with a manager, the first call of \<open>handleDeath\<close> is the life-state
  broadcast to the whole \<open>broadcastContextList\<close> of the manager's scene; the removal from
  the manager with reason \<open>VISION_DIE\<close> is the second and last call, made once the broadcast
  has resolved, and it is not made when the broadcast rejects. On an entity without a manager
  the hook makes no call and resolves.
\<close>

theorem handleDeath_order:
  "(manager e = Some m \<longrightarrow>
      fst (handleDeath resolves e)
        = BroadcastNotify (broadcastContextList (scene m)) e
          # (if resolves (BroadcastNotify (broadcastContextList (scene m)) e)
             then [ManagerRemove e VISION_DIE] else []))
   \<and> (manager e = None \<longrightarrow> handleDeath resolves e = ([], True))"
  by (simp add: handleDeath_def Let_def)

theorem handleDeath_order_witness:
  "manager deadMonster = Some \<lparr>scene = scene1\<rparr>
   \<and> broadcastContextList scene1 = [1]
   \<and> handleDeath (\<lambda>c. True) deadMonster
       = ([BroadcastNotify [1] deadMonster, ManagerRemove deadMonster VISION_DIE], True)
   \<and> fst (handleDeath (\<lambda>c. False) deadMonster) = [BroadcastNotify [1] deadMonster]
   \<and> manager (deadMonster\<lparr>manager := None\<rparr>) = None
   \<and> handleDeath (\<lambda>c. True) (deadMonster\<lparr>manager := None\<rparr>) = ([], True)"
proof -
  have h: "manager deadMonster = Some \<lparr>scene = scene1\<rparr>"
    by (simp add: example_defs)
  have c: "broadcastContextList scene1 = [1]"
    by (simp add: example_defs)
  have d: "manager (deadMonster\<lparr>manager := None\<rparr>) = None"
    by simp
  have r: "snd (handleDeath (\<lambda>c. True) deadMonster)"
    by (simp add: handleDeath_def Let_def h)
  from handleDeath_order [of deadMonster "\<lparr>scene = scene1\<rparr>" "\<lambda>c. True"] h c
  have a: "fst (handleDeath (\<lambda>c. True) deadMonster)
            = [BroadcastNotify [1] deadMonster, ManagerRemove deadMonster VISION_DIE]"
    by simp
  from handleDeath_order [of deadMonster "\<lparr>scene = scene1\<rparr>" "\<lambda>c. False"] h c
  have b: "fst (handleDeath (\<lambda>c. False) deadMonster) = [BroadcastNotify [1] deadMonster]"
    by simp
  from handleDeath_order [of "deadMonster\<lparr>manager := None\<rparr>" "\<lparr>scene = scene1\<rparr>" "\<lambda>c. True"] d
  have e: "handleDeath (\<lambda>c. True) (deadMonster\<lparr>manager := None\<rparr>) = ([], True)"
    by blast
  from a r have "handleDeath (\<lambda>c. True) deadMonster
       = ([BroadcastNotify [1] deadMonster, ManagerRemove deadMonster VISION_DIE], True)"
    by (simp add: prod_eq_iff)
  with h c b d e show ?thesis by simp
qed

end
